theory Spec2Isabelle
  imports Main "HOL-Library.Word"
begin

unbundle bit_operations_syntax

section \<open>Data model of threads.h\<close>

text \<open>
  The library is one C file compiled for one of two backends: the sections under
  \<^verbatim>\<open>#ifdef __unix__\<close> or those under \<^verbatim>\<open>#ifdef _WIN32\<close>. Each function below takes
  the backend as its first argument and has one branch per section.
\<close>

datatype backend = Unix | Win32

text \<open>
  C \<^verbatim>\<open>int\<close> and the Windows \<^verbatim>\<open>DWORD\<close> are 32-bit values; the casts between them
  (\<^verbatim>\<open>(int) status\<close>, \<^verbatim>\<open>errno = status\<close>, \<^verbatim>\<open>(DWORD) res\<close>) keep the bit pattern.
  A \<^verbatim>\<open>thrd_t\<close> is a \<^verbatim>\<open>pthread_t\<close> or a \<^verbatim>\<open>HANDLE\<close>, a 64-bit value here; on Windows
  \<^verbatim>\<open>mtx_t\<close> is a \<^verbatim>\<open>HANDLE\<close> too. Pointers are addresses, \<^verbatim>\<open>NULL\<close> being address 0.
\<close>

type_synonym c_int = "32 word"
type_synonym DWORD = "32 word"
type_synonym thrd_t = "64 word"
type_synonym ptr = nat

definition NULL :: ptr where
  "NULL = 0"

definition NULL_HANDLE :: thrd_t where
  "NULL_HANDLE = 0"

text \<open>The anonymous enum of result codes: \<^verbatim>\<open>enum { thrd_success, thrd_nomem, ... }\<close>.\<close>

definition thrd_success :: c_int where
  "thrd_success = 0"

definition thrd_nomem :: c_int where
  "thrd_nomem = 1"

definition thrd_timedout :: c_int where
  "thrd_timedout = 2"

definition thrd_busy :: c_int where
  "thrd_busy = 3"

definition thrd_error :: c_int where
  "thrd_error = 4"

text \<open>The anonymous enum of mutex kinds: \<^verbatim>\<open>enum { mtx_plain, mtx_recursive, mtx_timed }\<close>.\<close>

definition mtx_plain :: c_int where
  "mtx_plain = 0"

definition mtx_recursive :: c_int where
  "mtx_recursive = 1"

definition mtx_timed :: c_int where
  "mtx_timed = 2"

text \<open>
  Constants of the system headers the file includes (\<^verbatim>\<open>errno.h\<close> with its Linux values,
  \<^verbatim>\<open>windows.h\<close>).
\<close>

definition EINVAL :: c_int where
  "EINVAL = 22"

definition EBUSY :: c_int where
  "EBUSY = 16"

definition ENOMEM :: c_int where
  "ENOMEM = 12"

definition ETIMEDOUT :: c_int where
  "ETIMEDOUT = 110"

definition WAIT_OBJECT_0 :: DWORD where
  "WAIT_OBJECT_0 = 0"

definition WAIT_TIMEOUT :: DWORD where
  "WAIT_TIMEOUT = 258"

definition WAIT_FAILED :: DWORD where
  "WAIT_FAILED = 0xFFFFFFFF"

definition INFINITE :: DWORD where
  "INFINITE = 0xFFFFFFFF"

definition ERROR_NOT_ENOUGH_MEMORY :: DWORD where
  "ERROR_NOT_ENOUGH_MEMORY = 8"

subsection \<open>Program state\<close>

text \<open>
  What the library reads and writes: the process-wide \<^verbatim>\<open>errno\<close>, the \<^verbatim>\<open>int\<close> objects
  reached through \<^verbatim>\<open>int* res\<close>, and the \<^verbatim>\<open>thrd_t\<close> and (Windows) \<^verbatim>\<open>mtx_t\<close> objects
  reached through \<^verbatim>\<open>thrd_t* thr\<close> and \<^verbatim>\<open>mtx_t* mutex\<close>. A POSIX \<^verbatim>\<open>pthread_mutex_t\<close>
  is opaque: only the native calls touch it, through its address.
\<close>

record state =
  errno :: c_int
  ints :: "ptr \<Rightarrow> c_int"
  objs :: "ptr \<Rightarrow> thrd_t"

subsection \<open>Native primitives\<close>

text \<open>
  The operating system's calls are not part of the library; they are parameters of the
  model, collected in one record that gives the answer of each call during one library
  operation. A call that may wait answers \<open>None\<close> when it never returns.
  \<^item> \<open>pthread_create func arg\<close>: the returned value and what is left in \<^verbatim>\<open>*thr\<close>;
  \<^item> \<open>pthread_join thr\<close>: the returned value and the pointer stored through the
    \<^verbatim>\<open>void**\<close> argument;
  \<^item> \<open>pthread_mutex_init mutex attr\<close>: \<open>attr\<close> is \<open>None\<close> for a \<^verbatim>\<open>NULL\<close> attribute;
  \<^item> \<open>WaitForSingleObject h ms\<close>: the wait status for the time-out \<open>ms\<close>;
  \<^item> \<open>GetLastError\<close>: the value \<^verbatim>\<open>thrd_errno\<close> reads after a failed Windows call.
\<close>

datatype mutexattr = PTHREAD_MUTEX_DEFAULT | PTHREAD_MUTEX_RECURSIVE

record env =
  pthread_create :: "ptr \<Rightarrow> ptr \<Rightarrow> c_int \<times> thrd_t"
  pthread_self :: thrd_t
  pthread_detach :: "thrd_t \<Rightarrow> c_int"
  pthread_join :: "thrd_t \<Rightarrow> (c_int \<times> ptr) option"
  pthread_yield :: c_int
  pthread_mutex_destroy :: "ptr \<Rightarrow> c_int"
  pthread_mutex_init :: "ptr \<Rightarrow> mutexattr option \<Rightarrow> c_int"
  pthread_mutex_lock :: "ptr \<Rightarrow> c_int option"
  pthread_mutex_trylock :: "ptr \<Rightarrow> c_int"
  pthread_mutex_unlock :: "ptr \<Rightarrow> c_int"
  CreateThread :: "ptr \<Rightarrow> ptr \<Rightarrow> thrd_t"
  GetLastError :: DWORD
  GetCurrentThread :: thrd_t
  CloseHandle :: "thrd_t \<Rightarrow> c_int"
  GetThreadId :: "thrd_t \<Rightarrow> DWORD"
  WaitForSingleObject :: "thrd_t \<Rightarrow> DWORD \<Rightarrow> DWORD option"
  CreateMutex :: "bool \<Rightarrow> thrd_t"
  ReleaseMutex :: "thrd_t \<Rightarrow> c_int"

section \<open>Thread functions\<close>

text \<open>\<^verbatim>\<open>int thrd_create(thrd_t* thr, thrd_start_t func, void* arg)\<close>\<close>

definition thrd_create :: "backend \<Rightarrow> env \<Rightarrow> ptr \<Rightarrow> ptr \<Rightarrow> ptr \<Rightarrow> state \<Rightarrow> c_int \<times> state" where
  "thrd_create b e thr func arg s =
    (case b of
       Unix \<Rightarrow>
         (let (value, tid) = pthread_create e func arg;
              s1 = s\<lparr>objs := (objs s)(thr := tid)\<rparr>
          in if value \<noteq> 0 then (thrd_error, s1\<lparr>errno := value\<rparr>)
             else (thrd_success, s1))
     | Win32 \<Rightarrow>
         (let s1 = s\<lparr>objs := (objs s)(thr := CreateThread e func arg)\<rparr>
          in if objs s1 thr = NULL_HANDLE then (thrd_error, s1\<lparr>errno := GetLastError e\<rparr>)
             else (thrd_success, s1)))"

text \<open>\<^verbatim>\<open>thrd_t thrd_current(void)\<close>\<close>

definition thrd_current :: "backend \<Rightarrow> env \<Rightarrow> thrd_t" where
  "thrd_current b e = (case b of Unix \<Rightarrow> pthread_self e | Win32 \<Rightarrow> GetCurrentThread e)"

text \<open>\<^verbatim>\<open>int thrd_detach(thrd_t thr)\<close>\<close>

definition thrd_detach :: "backend \<Rightarrow> env \<Rightarrow> thrd_t \<Rightarrow> state \<Rightarrow> c_int \<times> state" where
  "thrd_detach b e thr s =
    (case b of
       Unix \<Rightarrow>
         (let value = pthread_detach e thr
          in if value \<noteq> 0 then (thrd_error, s\<lparr>errno := value\<rparr>) else (thrd_success, s))
     | Win32 \<Rightarrow>
         (if CloseHandle e thr = 0 then (thrd_error, s\<lparr>errno := GetLastError e\<rparr>)
          else (thrd_success, s)))"

text \<open>
  \<^verbatim>\<open>int thrd_equal(thrd_t lhs, thrd_t rhs)\<close>. The Windows section returns \<^verbatim>\<open>thrd_error\<close>
  when a \<^verbatim>\<open>GetThreadId\<close> lookup answers 0.
\<close>

definition thrd_equal :: "backend \<Rightarrow> env \<Rightarrow> thrd_t \<Rightarrow> thrd_t \<Rightarrow> state \<Rightarrow> c_int \<times> state" where
  "thrd_equal b e lhs rhs s =
    (case b of
       Unix \<Rightarrow> (if lhs = rhs then 1 else 0, s)
     | Win32 \<Rightarrow>
         (let lhsValue = GetThreadId e lhs
          in if lhsValue = 0 then (thrd_error, s\<lparr>errno := GetLastError e\<rparr>)
             else
               (let rhsValue = GetThreadId e rhs
                in if rhsValue = 0 then (thrd_error, s\<lparr>errno := GetLastError e\<rparr>)
                   else (if lhsValue = rhsValue then 1 else 0, s))))"

text \<open>
  \<^verbatim>\<open>void thrd_exit(int res)\<close> never returns; the model gives what it hands to the native
  exit call. The POSIX section passes \<^verbatim>\<open>(void*) &res\<close>, the address of its own parameter
  (\<open>res_addr\<close>), the Windows section passes \<^verbatim>\<open>(DWORD) res\<close>.
\<close>

datatype exit_value = Exit_pointer ptr | Exit_code DWORD

definition thrd_exit :: "backend \<Rightarrow> ptr \<Rightarrow> c_int \<Rightarrow> exit_value" where
  "thrd_exit b res_addr res = (case b of Unix \<Rightarrow> Exit_pointer res_addr | Win32 \<Rightarrow> Exit_code res)"

text \<open>
  \<^verbatim>\<open>int thrd_join(thrd_t thr, int* res)\<close>. The POSIX section calls
  \<^verbatim>\<open>pthread_join(thr, (void**) &res)\<close>: the native call stores the thread's return value
  in the parameter \<^verbatim>\<open>res\<close> itself, which is not read afterwards, so no \<^verbatim>\<open>int\<close> object
  changes. The Windows section stores the wait status in \<^verbatim>\<open>*res\<close> before testing it.
\<close>

definition thrd_join :: "backend \<Rightarrow> env \<Rightarrow> thrd_t \<Rightarrow> ptr \<Rightarrow> state \<Rightarrow> (c_int \<times> state) option" where
  "thrd_join b e thr res s =
    (case b of
       Unix \<Rightarrow>
         (case pthread_join e thr of
            None \<Rightarrow> None
          | Some (value, res') \<Rightarrow>
              if value \<noteq> 0 then Some (thrd_error, s\<lparr>errno := value\<rparr>)
              else Some (thrd_success, s))
     | Win32 \<Rightarrow>
         (case WaitForSingleObject e thr INFINITE of
            None \<Rightarrow> None
          | Some status \<Rightarrow>
              (let s1 = (if res \<noteq> NULL then s\<lparr>ints := (ints s)(res := status)\<rparr> else s)
               in if status \<noteq> WAIT_OBJECT_0 then
                    (if status = WAIT_FAILED then Some (thrd_error, s1\<lparr>errno := GetLastError e\<rparr>)
                     else Some (thrd_error, s1\<lparr>errno := status\<rparr>))
                  else Some (thrd_success, s1))))"

text \<open>\<^verbatim>\<open>void thrd_yield(void)\<close>\<close>

definition thrd_yield :: "backend \<Rightarrow> env \<Rightarrow> state \<Rightarrow> state" where
  "thrd_yield b e s =
    (case b of
       Unix \<Rightarrow>
         (let value = pthread_yield e
          in if value \<noteq> 0 then s\<lparr>errno := value\<rparr> else s)
     | Win32 \<Rightarrow> s)"

section \<open>Mutex functions\<close>

text \<open>\<^verbatim>\<open>void mtx_destroy(mtx_t* mutex)\<close>\<close>

definition mtx_destroy :: "backend \<Rightarrow> env \<Rightarrow> ptr \<Rightarrow> state \<Rightarrow> state" where
  "mtx_destroy b e mutex s =
    (case b of
       Unix \<Rightarrow>
         (let value = pthread_mutex_destroy e mutex
          in if value \<noteq> 0 then s\<lparr>errno := value\<rparr> else s)
     | Win32 \<Rightarrow>
         (if CloseHandle e (objs s mutex) = 0 then s\<lparr>errno := GetLastError e\<rparr> else s))"

text \<open>
  \<^verbatim>\<open>int mtx_init(mtx_t* mutex, int type)\<close>. The Windows section starts with the test
  \<^verbatim>\<open>type != mtx_plain || type != (mtx_plain | mtx_recursive)\<close> and returns \<^verbatim>\<open>thrd_error\<close>
  there without touching \<^verbatim>\<open>errno\<close>.
\<close>

definition mtx_init :: "backend \<Rightarrow> env \<Rightarrow> ptr \<Rightarrow> c_int \<Rightarrow> state \<Rightarrow> c_int \<times> state" where
  "mtx_init b e mutex type s =
    (case b of
       Unix \<Rightarrow>
         (if type = (mtx_plain OR mtx_recursive) then
            (let value = pthread_mutex_init e mutex (Some PTHREAD_MUTEX_RECURSIVE)
             in if value \<noteq> 0 then (thrd_error, s\<lparr>errno := value\<rparr>) else (thrd_success, s))
          else if type = mtx_plain then
            (let value = pthread_mutex_init e mutex None
             in if value \<noteq> 0 then (thrd_error, s\<lparr>errno := value\<rparr>) else (thrd_success, s))
          else (thrd_error, s\<lparr>errno := EINVAL\<rparr>))
     | Win32 \<Rightarrow>
         (if type \<noteq> mtx_plain \<or> type \<noteq> (mtx_plain OR mtx_recursive) then (thrd_error, s)
          else
            (let owner = ((type AND mtx_recursive) = mtx_recursive);
                 s1 = s\<lparr>objs := (objs s)(mutex := CreateMutex e owner)\<rparr>
             in if objs s1 mutex = NULL_HANDLE then (thrd_error, s1\<lparr>errno := GetLastError e\<rparr>)
                else (thrd_success, s1))))"

text \<open>\<^verbatim>\<open>int mtx_lock(mtx_t* mutex)\<close>\<close>

definition mtx_lock :: "backend \<Rightarrow> env \<Rightarrow> ptr \<Rightarrow> state \<Rightarrow> (c_int \<times> state) option" where
  "mtx_lock b e mutex s =
    (case b of
       Unix \<Rightarrow>
         (case pthread_mutex_lock e mutex of
            None \<Rightarrow> None
          | Some value \<Rightarrow>
              if value \<noteq> 0 then Some (thrd_error, s\<lparr>errno := value\<rparr>)
              else Some (thrd_success, s))
     | Win32 \<Rightarrow>
         (case WaitForSingleObject e (objs s mutex) INFINITE of
            None \<Rightarrow> None
          | Some status \<Rightarrow>
              if status \<noteq> WAIT_OBJECT_0 then
                (if status = WAIT_FAILED then Some (thrd_error, s\<lparr>errno := GetLastError e\<rparr>)
                 else Some (thrd_error, s\<lparr>errno := status\<rparr>))
              else Some (thrd_success, s)))"

text \<open>
  \<^verbatim>\<open>int mtx_trylock(mtx_t* mutex)\<close>. The Windows section waits with
  \<^verbatim>\<open>WaitForSingleObject(*mutex, INFINITE)\<close>, as \<^verbatim>\<open>mtx_lock\<close> does.
\<close>

definition mtx_trylock :: "backend \<Rightarrow> env \<Rightarrow> ptr \<Rightarrow> state \<Rightarrow> (c_int \<times> state) option" where
  "mtx_trylock b e mutex s =
    (case b of
       Unix \<Rightarrow>
         (let value = pthread_mutex_trylock e mutex
          in if value \<noteq> 0 then
               Some (if value = EBUSY then thrd_busy else thrd_error, s\<lparr>errno := value\<rparr>)
             else Some (thrd_success, s))
     | Win32 \<Rightarrow>
         (case WaitForSingleObject e (objs s mutex) INFINITE of
            None \<Rightarrow> None
          | Some status \<Rightarrow>
              if status \<noteq> WAIT_OBJECT_0 then
                (if status = WAIT_TIMEOUT then Some (thrd_busy, s\<lparr>errno := status\<rparr>)
                 else if status = WAIT_FAILED then Some (thrd_error, s\<lparr>errno := GetLastError e\<rparr>)
                 else Some (thrd_error, s\<lparr>errno := status\<rparr>))
              else Some (thrd_success, s)))"

text \<open>\<^verbatim>\<open>int mtx_unlock(mtx_t* mutex)\<close>\<close>

definition mtx_unlock :: "backend \<Rightarrow> env \<Rightarrow> ptr \<Rightarrow> state \<Rightarrow> c_int \<times> state" where
  "mtx_unlock b e mutex s =
    (case b of
       Unix \<Rightarrow>
         (let value = pthread_mutex_unlock e mutex
          in if value \<noteq> 0 then (thrd_error, s\<lparr>errno := value\<rparr>) else (thrd_success, s))
     | Win32 \<Rightarrow>
         (if ReleaseMutex e (objs s mutex) = 0 then (thrd_error, s\<lparr>errno := GetLastError e\<rparr>)
          else (thrd_success, s)))"

section \<open>The translation rule of the specification\<close>

text \<open>
  The rule of the specification's result translator, in its words: native success gives
  \<^verbatim>\<open>thrd_success\<close>, a native "would block because already held" condition gives
  \<^verbatim>\<open>thrd_busy\<close>, a native wait time-out gives \<^verbatim>\<open>thrd_timedout\<close>, and any other native
  condition gives \<^verbatim>\<open>thrd_error\<close>. This is the specification's rule, not a function of
  the library; the library's functions are compared with it below.
\<close>

datatype native_condition = Native_success | Already_held | Wait_timed_out | Other_failure

fun translation_rule :: "native_condition \<Rightarrow> c_int" where
  "translation_rule Native_success = thrd_success"
| "translation_rule Already_held = thrd_busy"
| "translation_rule Wait_timed_out = thrd_timedout"
| "translation_rule Other_failure = thrd_error"




definition win32_trylock_condition :: "DWORD \<Rightarrow> native_condition" where
  "win32_trylock_condition status =
    (if status = WAIT_OBJECT_0 then Native_success
     else if status = WAIT_TIMEOUT then Already_held
     else Other_failure)"


section \<open>Concrete inputs\<close>

text \<open>
  An environment in which every native call succeeds at once: thread 1 is the caller on
  POSIX, the Windows pseudo handle of the caller has thread id 7, new threads and mutexes
  get the handles \<open>0x100\<close> and \<open>0x200\<close>.
\<close>

definition env0 :: env where
  "env0 = \<lparr>pthread_create = (\<lambda>func arg. (0, 1)), pthread_self = 1,
     pthread_detach = (\<lambda>thr. 0), pthread_join = (\<lambda>thr. Some (0, 0)), pthread_yield = 0,
     pthread_mutex_destroy = (\<lambda>mutex. 0), pthread_mutex_init = (\<lambda>mutex attr. 0),
     pthread_mutex_lock = (\<lambda>mutex. Some 0), pthread_mutex_trylock = (\<lambda>mutex. 0),
     pthread_mutex_unlock = (\<lambda>mutex. 0),
     CreateThread = (\<lambda>func arg. 0x100), GetLastError = 0,
     GetCurrentThread = 0xFFFFFFFFFFFFFFFE, CloseHandle = (\<lambda>h. 1), GetThreadId = (\<lambda>h. 7),
     WaitForSingleObject = (\<lambda>h ms. Some WAIT_OBJECT_0),
     CreateMutex = (\<lambda>owner. 0x200), ReleaseMutex = (\<lambda>h. 1)\<rparr>"

text \<open>
  A state with \<^verbatim>\<open>errno\<close> 0, every \<^verbatim>\<open>int\<close> object holding 7 and every handle object
  holding the mutex handle \<open>0x200\<close>.
\<close>

definition state0 :: state where
  "state0 = \<lparr>errno = 0, ints = (\<lambda>p. 7), objs = (\<lambda>p. 0x200)\<rparr>"

text \<open>
  The mutex is held by another thread that does not release it: a wait without time
  limit never returns, a wait with a limit answers \<^verbatim>\<open>WAIT_TIMEOUT\<close>; the POSIX try-lock
  answers \<^verbatim>\<open>EBUSY\<close>.
\<close>

definition held_env :: env where
  "held_env = env0\<lparr>pthread_mutex_trylock := (\<lambda>mutex. EBUSY),
     WaitForSingleObject := (\<lambda>h ms. if ms = INFINITE then None else Some WAIT_TIMEOUT)\<rparr>"

text \<open>
  The joined thread has ended and its entry function returned 42: \<^verbatim>\<open>pthread_join\<close>
  answers 0 and hands back the return value 42 as the thread's \<^verbatim>\<open>void*\<close> result; the
  Windows wait on the thread handle answers \<^verbatim>\<open>WAIT_OBJECT_0\<close> (the exit code 42 is what
  \<^verbatim>\<open>GetExitCodeThread\<close> would give, a call the library does not make).
\<close>

definition exit42_env :: env where
  "exit42_env = env0\<lparr>pthread_join := (\<lambda>thr. Some (0, 42))\<rparr>"

text \<open>Native thread creation fails for lack of memory.\<close>

definition nomem_env :: env where
  "nomem_env = env0\<lparr>pthread_create := (\<lambda>func arg. (ENOMEM, 0)),
     CreateThread := (\<lambda>func arg. NULL_HANDLE), GetLastError := ERROR_NOT_ENOUGH_MEMORY\<rparr>"

text \<open>
  The handle \<open>0x300\<close> is not a thread handle: its \<^verbatim>\<open>GetThreadId\<close> lookup answers 0 and
  the last error is 6 (\<^verbatim>\<open>ERROR_INVALID_HANDLE\<close>).
\<close>

definition lookup_fail_env :: env where
  "lookup_fail_env = env0\<lparr>GetThreadId := (\<lambda>h. if h = 0x300 then 0 else 7), GetLastError := 6\<rparr>"

text \<open>Every wait fails with last error 6.\<close>

definition wait_failed_env :: env where
  "wait_failed_env = env0\<lparr>WaitForSingleObject := (\<lambda>h ms. Some WAIT_FAILED), GetLastError := 6\<rparr>"

lemmas thrd_codes =
  thrd_success_def thrd_nomem_def thrd_timedout_def thrd_busy_def thrd_error_def

lemmas mtx_kinds = mtx_plain_def mtx_recursive_def mtx_timed_def

lemmas native_consts =
  EINVAL_def EBUSY_def ENOMEM_def ETIMEDOUT_def
  WAIT_OBJECT_0_def WAIT_TIMEOUT_def WAIT_FAILED_def
  INFINITE_def ERROR_NOT_ENOUGH_MEMORY_def NULL_def NULL_HANDLE_def

lemmas inputs =
  env0_def state0_def held_env_def exit42_env_def nomem_env_def lookup_fail_env_def
  wait_failed_env_def

section \<open>General facts about the translation\<close>

lemma mtx_init_win32_rejects_all: "mtx_init Win32 e mutex type s = (thrd_error, s)"
  by (simp add: mtx_init_def mtx_kinds)

lemma mtx_init_unix_plain:
  "mtx_init Unix e mutex mtx_plain s =
     (if pthread_mutex_init e mutex None \<noteq> 0
      then (thrd_error, s\<lparr>errno := pthread_mutex_init e mutex None\<rparr>)
      else (thrd_success, s))"
  by (simp add: mtx_init_def mtx_kinds Let_def)

lemma mtx_trylock_unix_returns: "mtx_trylock Unix e mutex s \<noteq> None"
  by (simp add: mtx_trylock_def Let_def)

lemma mtx_trylock_win32_waits_without_limit:
  "WaitForSingleObject e (objs s mutex) INFINITE = None \<Longrightarrow> mtx_trylock Win32 e mutex s = None"
  by (simp add: mtx_trylock_def)

lemma thrd_join_unix_keeps_ints:
  "thrd_join Unix e thr res s = Some (r, s') \<Longrightarrow> ints s' = ints s"
  by (auto simp: thrd_join_def split: option.splits if_splits)

lemma thrd_join_win32_success_stores_zero:
  "thrd_join Win32 e thr res s = Some (thrd_success, s') \<Longrightarrow> res \<noteq> NULL \<Longrightarrow> ints s' res = 0"
  by (auto simp: thrd_join_def Let_def thrd_codes WAIT_OBJECT_0_def split: option.splits if_splits)

lemma thrd_create_result: "fst (thrd_create b e thr func arg s) \<in> {thrd_success, thrd_error}"
  by (cases b) (auto simp: thrd_create_def Let_def split: prod.splits)

lemma thrd_exit_unix_hands_over_address: "thrd_exit Unix res_addr res = Exit_pointer res_addr"
  by (simp add: thrd_exit_def)

lemma mtx_round_trip_unix:
  "pthread_mutex_init e mutex None = 0 \<Longrightarrow> pthread_mutex_lock e mutex = Some 0 \<Longrightarrow>
   pthread_mutex_unlock e mutex = 0 \<Longrightarrow>
   mtx_init Unix e mutex mtx_plain s = (thrd_success, s) \<and>
   mtx_lock Unix e mutex s = Some (thrd_success, s) \<and>
   mtx_unlock Unix e mutex s = (thrd_success, s)"
  by (simp add: mtx_init_def mtx_lock_def mtx_unlock_def mtx_kinds)

lemma thrd_create_failure_sets_errno:
  "thrd_create b e thr func arg s = (r, s') \<Longrightarrow> r \<noteq> thrd_success \<Longrightarrow>
   errno s' = (case b of Unix \<Rightarrow> fst (pthread_create e func arg) | Win32 \<Rightarrow> GetLastError e)"
  by (cases b) (auto simp: thrd_create_def Let_def split: prod.splits if_splits)

lemma thrd_detach_failure_sets_errno:
  "thrd_detach b e thr s = (r, s') \<Longrightarrow> r \<noteq> thrd_success \<Longrightarrow>
   errno s' = (case b of Unix \<Rightarrow> pthread_detach e thr | Win32 \<Rightarrow> GetLastError e)"
  by (cases b) (auto simp: thrd_detach_def Let_def split: if_splits)

lemma thrd_join_failure_sets_errno:
  "thrd_join b e thr res s = Some (r, s') \<Longrightarrow> r \<noteq> thrd_success \<Longrightarrow>
   (case b of
      Unix \<Rightarrow> map_option fst (pthread_join e thr) = Some (errno s')
    | Win32 \<Rightarrow>
        (WaitForSingleObject e thr INFINITE = Some WAIT_FAILED \<and> errno s' = GetLastError e) \<or>
        WaitForSingleObject e thr INFINITE = Some (errno s'))"
  by (cases b) (auto simp: thrd_join_def Let_def split: option.splits if_splits)

lemma mtx_lock_failure_sets_errno:
  "mtx_lock b e mutex s = Some (r, s') \<Longrightarrow> r \<noteq> thrd_success \<Longrightarrow>
   (case b of
      Unix \<Rightarrow> pthread_mutex_lock e mutex = Some (errno s')
    | Win32 \<Rightarrow>
        (WaitForSingleObject e (objs s mutex) INFINITE = Some WAIT_FAILED \<and>
         errno s' = GetLastError e) \<or>
        WaitForSingleObject e (objs s mutex) INFINITE = Some (errno s'))"
  by (cases b) (auto simp: mtx_lock_def split: option.splits if_splits)

lemma mtx_trylock_failure_sets_errno:
  "mtx_trylock b e mutex s = Some (r, s') \<Longrightarrow> r \<noteq> thrd_success \<Longrightarrow>
   (case b of
      Unix \<Rightarrow> pthread_mutex_trylock e mutex = errno s'
    | Win32 \<Rightarrow>
        (WaitForSingleObject e (objs s mutex) INFINITE = Some WAIT_FAILED \<and>
         errno s' = GetLastError e) \<or>
        WaitForSingleObject e (objs s mutex) INFINITE = Some (errno s'))"
  by (cases b) (auto simp: mtx_trylock_def Let_def split: option.splits if_splits)

lemma mtx_unlock_failure_sets_errno:
  "mtx_unlock b e mutex s = (r, s') \<Longrightarrow> r \<noteq> thrd_success \<Longrightarrow>
   errno s' = (case b of Unix \<Rightarrow> pthread_mutex_unlock e mutex | Win32 \<Rightarrow> GetLastError e)"
  by (cases b) (auto simp: mtx_unlock_def Let_def split: if_splits)

lemma mtx_init_unix_failure_sets_errno:
  "mtx_init Unix e mutex type s = (r, s') \<Longrightarrow> r \<noteq> thrd_success \<Longrightarrow>
   errno s' =
     (if type = (mtx_plain OR mtx_recursive)
      then pthread_mutex_init e mutex (Some PTHREAD_MUTEX_RECURSIVE)
      else if type = mtx_plain then pthread_mutex_init e mutex None else EINVAL)"
  by (auto simp: mtx_init_def Let_def split: if_splits)

lemma no_thrd_timedout:
  "map_option fst (mtx_lock b e mutex s) \<noteq> Some thrd_timedout"
  "map_option fst (mtx_trylock b e mutex s) \<noteq> Some thrd_timedout"
  "map_option fst (thrd_join b e thr res s) \<noteq> Some thrd_timedout"
  by (cases b; auto simp: mtx_lock_def mtx_trylock_def thrd_join_def Let_def thrd_codes
      split: option.splits if_splits)+

lemma mtx_trylock_win32_status:
  "map_option fst (mtx_trylock Win32 e mutex s) =
     map_option (\<lambda>status. translation_rule (win32_trylock_condition status))
       (WaitForSingleObject e (objs s mutex) INFINITE)"
  by (simp add: mtx_trylock_def win32_trylock_condition_def split: option.splits)

section \<open>The claims\<close>

text \<open>
  Claim C1: \<^verbatim>\<open>mtx_trylock\<close> never blocks; on a mutex held by another thread it returns
  \<^verbatim>\<open>thrd_busy\<close> at once. The Windows section waits with \<^verbatim>\<open>INFINITE\<close>: with the mutex
  held and never released the call does not return, although a bounded wait on the same
  mutex would answer \<^verbatim>\<open>WAIT_TIMEOUT\<close>. The POSIX section returns \<^verbatim>\<open>thrd_busy\<close>.
\<close>

theorem mtx_trylock_win32_blocks_on_held_mutex:
  "mtx_trylock Win32 held_env 1 state0 = None \<and>
   WaitForSingleObject held_env (objs state0 1) 0 = Some WAIT_TIMEOUT \<and>
   map_option fst (mtx_trylock Unix held_env 1 state0) = Some thrd_busy"
  by (simp add: mtx_trylock_def inputs native_consts)

text \<open>
  Claim C2: after a thread whose entry function returned 42 has ended, \<^verbatim>\<open>thrd_join\<close> with a
  non-null \<^verbatim>\<open>res\<close> returns \<^verbatim>\<open>thrd_success\<close> and stores 42 in \<^verbatim>\<open>*res\<close>. With \<^verbatim>\<open>*res\<close>
  (address 5) holding 7 before the call, the POSIX section returns \<^verbatim>\<open>thrd_success\<close> and
  leaves 7 there; the Windows section returns \<^verbatim>\<open>thrd_success\<close> and stores the wait status 0.
\<close>

theorem thrd_join_loses_exit_code:
  "map_option (\<lambda>(r, s'). (r, ints s' 5)) (thrd_join Unix exit42_env 1 5 state0)
     = Some (thrd_success, 7) \<and>
   map_option (\<lambda>(r, s'). (r, ints s' 5)) (thrd_join Win32 exit42_env 0x100 5 state0)
     = Some (thrd_success, 0)"
  by (simp add: thrd_join_def inputs native_consts)

text \<open>
  Claim C3: on every backend \<^verbatim>\<open>mtx_init\<close> with \<^verbatim>\<open>mtx_plain\<close> succeeds, and so do the lock,
  unlock and destroy that follow. On Windows the very first step returns \<^verbatim>\<open>thrd_error\<close>,
  with every native call ready to succeed, and creates no mutex; on POSIX the same
  call returns \<^verbatim>\<open>thrd_success\<close>.
\<close>

theorem mtx_init_plain_fails_on_win32:
  "mtx_init Win32 env0 1 mtx_plain state0 = (thrd_error, state0) \<and>
   mtx_init Unix env0 1 mtx_plain state0 = (thrd_success, state0)"
  by (simp add: mtx_init_def inputs mtx_kinds)

theorem mtx_init_plain_fails_on_win32_witness:
  "fst (mtx_init Win32 env0 1 mtx_plain state0) = thrd_error \<and>
   fst (mtx_init Win32 env0 1 mtx_plain state0) \<noteq> thrd_success \<and>
   objs (snd (mtx_init Win32 env0 1 mtx_plain state0)) = objs state0"
  using mtx_init_plain_fails_on_win32 by (simp add: thrd_codes)

text \<open>
  Claim C4: every path that returns a failure code stores the native error in \<^verbatim>\<open>errno\<close>
  first. The Windows section of \<^verbatim>\<open>mtx_init\<close> rejects \<^verbatim>\<open>mtx_timed\<close> with \<^verbatim>\<open>thrd_error\<close> and
  leaves \<^verbatim>\<open>errno\<close> at its old value 0; the POSIX section stores \<^verbatim>\<open>EINVAL\<close> on the same
  input.
\<close>

theorem mtx_init_win32_failure_keeps_errno:
  "mtx_init Win32 env0 1 mtx_timed state0 = (thrd_error, state0) \<and> errno state0 = 0 \<and>
   mtx_init Unix env0 1 mtx_timed state0 = (thrd_error, state0\<lparr>errno := EINVAL\<rparr>)"
  by (simp add: mtx_init_def inputs mtx_kinds)

theorem mtx_init_win32_failure_keeps_errno_witness:
  "fst (mtx_init Win32 env0 1 mtx_timed state0) = thrd_error \<and>
   errno (snd (mtx_init Win32 env0 1 mtx_timed state0)) = 0 \<and>
   errno (snd (mtx_init Unix env0 1 mtx_timed state0)) = EINVAL"
  using mtx_init_win32_failure_keeps_errno by simp



text \<open>
  Claim C6: \<^verbatim>\<open>thrd_create\<close> returns \<^verbatim>\<open>thrd_nomem\<close>, not \<^verbatim>\<open>thrd_error\<close>, when the native
  creation fails for lack of memory. With \<^verbatim>\<open>pthread_create\<close> answering \<^verbatim>\<open>ENOMEM\<close>, and
  with \<^verbatim>\<open>CreateThread\<close> answering \<^verbatim>\<open>NULL\<close> under last error \<^verbatim>\<open>ERROR_NOT_ENOUGH_MEMORY\<close>,
  both sections return \<^verbatim>\<open>thrd_error\<close> and store the native code in \<^verbatim>\<open>errno\<close>.
\<close>

theorem thrd_create_out_of_memory_is_thrd_error:
  "fst (thrd_create Unix nomem_env 1 2 3 state0) = thrd_error \<and>
   errno (snd (thrd_create Unix nomem_env 1 2 3 state0)) = ENOMEM \<and>
   fst (thrd_create Win32 nomem_env 1 2 3 state0) = thrd_error \<and>
   errno (snd (thrd_create Win32 nomem_env 1 2 3 state0)) = ERROR_NOT_ENOUGH_MEMORY \<and>
   thrd_error \<noteq> thrd_nomem"
  by (simp add: thrd_create_def inputs native_consts thrd_codes)

text \<open>
  Claim C7: \<^verbatim>\<open>mtx_init\<close> with \<^verbatim>\<open>mtx_timed\<close>, or with any kind other than \<^verbatim>\<open>mtx_plain\<close> and
  \<^verbatim>\<open>mtx_plain | mtx_recursive\<close>, returns \<^verbatim>\<open>thrd_error\<close> on both backends, whatever the
  native calls would answer; no mutex object is written, so the kind is not degraded to
  a plain mutex. Only \<^verbatim>\<open>errno\<close> may change (to \<^verbatim>\<open>EINVAL\<close>, on POSIX).
\<close>

theorem mtx_init_rejects_unsupported_kind:
  "type \<noteq> mtx_plain \<Longrightarrow> type \<noteq> (mtx_plain OR mtx_recursive) \<Longrightarrow>
   mtx_init b e mutex type s = (thrd_error, if b = Unix then s\<lparr>errno := EINVAL\<rparr> else s) \<and>
   fst (mtx_init b e mutex type s) \<noteq> thrd_success"
  by (cases b) (simp_all add: mtx_init_def thrd_codes)

theorem mtx_init_rejects_unsupported_kind_witness:
  "mtx_timed \<noteq> mtx_plain \<and> mtx_timed \<noteq> (mtx_plain OR mtx_recursive) \<and>
   mtx_init Unix env0 1 mtx_timed state0 = (thrd_error, state0\<lparr>errno := EINVAL\<rparr>) \<and>
   mtx_init Win32 env0 1 mtx_timed state0 = (thrd_error, state0) \<and>
   fst (mtx_init Unix env0 1 mtx_timed state0) \<noteq> thrd_success \<and>
   fst (mtx_init Win32 env0 1 mtx_timed state0) \<noteq> thrd_success"
proof -
  have h1: "mtx_timed \<noteq> mtx_plain"
    by (simp add: mtx_kinds)
  have h2: "mtx_timed \<noteq> (mtx_plain OR mtx_recursive)"
    by (simp add: mtx_kinds)
  show ?thesis
    using h1 h2 mtx_init_rejects_unsupported_kind [OF h1 h2, of Unix env0 1 state0]
      mtx_init_rejects_unsupported_kind [OF h1 h2, of Win32 env0 1 state0]
    by (simp add: thrd_codes)
qed

text \<open>
  Claim C8: on Windows a failed \<^verbatim>\<open>GetThreadId\<close> lookup in \<^verbatim>\<open>thrd_equal\<close> stores the native
  error in \<^verbatim>\<open>errno\<close> and the call answers 0, not equal. Comparing the invalid handle
  \<open>0x300\<close> with the thread handle \<open>0x100\<close> stores the last error 6 in \<^verbatim>\<open>errno\<close> and
  returns \<^verbatim>\<open>thrd_error\<close>, which is 4 and not 0.
\<close>

theorem thrd_equal_lookup_failure_is_nonzero:
  "thrd_equal Win32 lookup_fail_env 0x300 0x100 state0 = (thrd_error, state0\<lparr>errno := 6\<rparr>) \<and>
   thrd_equal Win32 lookup_fail_env 0x100 0x300 state0 = (thrd_error, state0\<lparr>errno := 6\<rparr>) \<and>
   thrd_error = 4 \<and> thrd_error \<noteq> 0"
  by (simp add: thrd_equal_def inputs thrd_codes)

text \<open>
  Claim C9: \<^verbatim>\<open>thrd_equal(thrd_current(), thrd_current())\<close> is non-zero for every calling
  thread, on both backends and whatever the native calls answer.
\<close>

theorem thrd_equal_current_current:
  "fst (thrd_equal b e (thrd_current b e) (thrd_current b e) s) \<noteq> 0"
  by (cases b) (simp_all add: thrd_equal_def thrd_current_def Let_def thrd_codes)

theorem thrd_equal_current_current_witness:
  "fst (thrd_equal Unix env0 (thrd_current Unix env0) (thrd_current Unix env0) state0) \<noteq> 0 \<and>
   fst (thrd_equal Win32 env0 (thrd_current Win32 env0) (thrd_current Win32 env0) state0) = 1"
  using thrd_equal_current_current [of Unix env0 state0]
    thrd_equal_current_current [of Win32 env0 state0]
  by (simp add: thrd_equal_def thrd_current_def inputs)

text \<open>
  Claim C10: on Windows, whenever the wait in \<^verbatim>\<open>thrd_join\<close> returns and \<^verbatim>\<open>res\<close> is not
  null, the call returns with the wait status stored in \<^verbatim>\<open>*res\<close> and nothing else
  changed among the \<^verbatim>\<open>int\<close> objects; this holds also when the status is not
  \<^verbatim>\<open>WAIT_OBJECT_0\<close> and the call returns \<^verbatim>\<open>thrd_error\<close>.
\<close>

theorem thrd_join_win32_stores_status_first:
  "res \<noteq> NULL \<Longrightarrow> WaitForSingleObject e thr INFINITE = Some status \<Longrightarrow>
   \<exists>r s'. thrd_join Win32 e thr res s = Some (r, s') \<and>
          ints s' = (ints s)(res := status) \<and>
          r = (if status = WAIT_OBJECT_0 then thrd_success else thrd_error)"
  by (simp add: thrd_join_def Let_def)

theorem thrd_join_win32_stores_status_first_witness:
  "(5::nat) \<noteq> NULL \<and> WaitForSingleObject wait_failed_env 0x100 INFINITE = Some WAIT_FAILED \<and>
   ints state0 5 = 7 \<and>
   map_option (\<lambda>(r, s'). (r, ints s' 5)) (thrd_join Win32 wait_failed_env 0x100 5 state0)
     = Some (thrd_error, WAIT_FAILED)"
proof -
  have h1: "(5::nat) \<noteq> NULL"
    by (simp add: NULL_def)
  have h2: "WaitForSingleObject wait_failed_env 0x100 INFINITE = Some WAIT_FAILED"
    by (simp add: inputs)
  have h3: "WAIT_FAILED \<noteq> WAIT_OBJECT_0"
    by (simp add: native_consts)
  from thrd_join_win32_stores_status_first [OF h1 h2, of state0]
  obtain r s' where "thrd_join Win32 wait_failed_env 0x100 5 state0 = Some (r, s')"
    and "ints s' = (ints state0)(5 := WAIT_FAILED)" and "r = thrd_error"
    using h3 by auto
  then show ?thesis
    using h1 h2 by (simp add: state0_def)
qed

end
